theory Spec2Isabelle
  imports Complex_Main
begin

section \<open>Values, exceptions and tables\<close>

text \<open>
  The session data builder of \<^verbatim>\<open>data_processor.py\<close> reads a FastF1 session
  object. Every read of that object either gives a value or raises; an exception is a
  value of type \<open>exn\<close>, and a read is a value of type \<open>exn + 'a\<close> with
  \<open>Inl\<close> for the raise.
\<close>

datatype exn = AttributeError | KeyError | OtherError string

type_synonym 'a result = "exn + 'a"

text \<open>Sequencing: a raise of the first step skips the rest.\<close>

definition and_then :: "'a result \<Rightarrow> ('a \<Rightarrow> 'b result) \<Rightarrow> 'b result" where
  "and_then m k = (case m of Inl e \<Rightarrow> Inl e | Inr v \<Rightarrow> k v)"

text \<open>
  A Python object held in a cell of a results row, of the event record or of a driver
  record: \<open>None\<close>, a bool, a string, or any other object (an int, a float, a
  timestamp), which is carried as the text that \<^verbatim>\<open>str()\<close> prints for it.
\<close>

datatype pyval = VNone | VBool bool | VStr string | VObj string

fun py_str :: "pyval \<Rightarrow> string" where
  "py_str VNone = ''None''"
| "py_str (VBool True) = ''True''"
| "py_str (VBool False) = ''False''"
| "py_str (VStr s) = s"
| "py_str (VObj r) = r"

text \<open>
  A pandas Series indexed by label (a results row, the event record, a driver record):
  \<^verbatim>\<open>row['k']\<close> raises KeyError and \<^verbatim>\<open>row.k\<close> raises AttributeError when the
  label is missing.
\<close>

type_synonym row = "string \<rightharpoonup> pyval"

definition getitem :: "row \<Rightarrow> string \<Rightarrow> pyval result" where
  "getitem r k = (case r k of None \<Rightarrow> Inl KeyError | Some v \<Rightarrow> Inr v)"

definition getattr :: "row \<Rightarrow> string \<Rightarrow> pyval result" where
  "getattr r k = (case r k of None \<Rightarrow> Inl AttributeError | Some v \<Rightarrow> Inr v)"

text \<open>
  \<^verbatim>\<open>hasattr(obj, 'a')\<close> reads the attribute: it is False when the read raises
  AttributeError, it lets any other exception through, and it is True otherwise.
\<close>

definition hasattr :: "'a result \<Rightarrow> bool result" where
  "hasattr a = (case a of Inl AttributeError \<Rightarrow> Inr False
                | Inl e \<Rightarrow> Inl e
                | Inr _ \<Rightarrow> Inr True)"

text \<open>
  A DataFrame: its columns in order, each with its cells. Numeric cells are exact reals;
  a \<^verbatim>\<open>Time\<close> cell is the elapsed time in seconds, so that
  \<^verbatim>\<open>.dt.total_seconds()\<close> reads the cell as it is.
\<close>

type_synonym table = "(string \<times> real list) list"

definition columns :: "table \<Rightarrow> string list" where
  "columns t = map fst t"

definition nrows :: "table \<Rightarrow> nat" where
  "nrows t = (case t of [] \<Rightarrow> 0 | (_, c) # _ \<Rightarrow> length c)"

definition empty :: "table \<Rightarrow> bool" where
  "empty t = (t = [] \<or> nrows t = 0)"

definition getcol :: "table \<Rightarrow> string \<Rightarrow> real list result" where
  "getcol t k = (case map_of t k of None \<Rightarrow> Inl KeyError | Some c \<Rightarrow> Inr c)"

text \<open>\<^verbatim>\<open>pd.DataFrame()\<close>: the table with no column.\<close>

definition DataFrame :: table where
  "DataFrame = []"

section \<open>The session object\<close>

text \<open>One lap: \<^verbatim>\<open>get_car_data()\<close> gives the car-data table or raises.\<close>

record lap =
  get_car_data :: "table result"

text \<open>
  The laps of one driver (\<^verbatim>\<open>session.laps.pick_driver(d)\<close>): the lap table and
  what \<^verbatim>\<open>pick_fastest()\<close> does on it (a lap, \<open>None\<close>, or a raise).
\<close>

record driver_laps =
  frame :: table
  pick_fastest :: "lap option result"

record laps =
  laps_frame :: table
  pick_driver :: "string \<Rightarrow> driver_laps result"

record circuit_info =
  corners :: "table result"

text \<open>
  The loaded session: one field for each attribute or method that the builder reads,
  holding what the read does. Driver numbers are strings, as FastF1 gives them. The
  fields \<open>session_laps\<close>, \<open>session_weather_data\<close>, \<open>session_track_status\<close> and
  \<open>session_race_control_messages\<close> are the attributes \<^verbatim>\<open>laps\<close>,
  \<^verbatim>\<open>weather_data\<close>, \<^verbatim>\<open>track_status\<close> and \<^verbatim>\<open>race_control_messages\<close>.
\<close>

record session =
  results :: "row list result"
  drivers :: "string list result"
  get_driver :: "string \<Rightarrow> row option result"
  event :: "row result"
  get_circuit_info :: "circuit_info option result"
  date :: "pyval result"
  name :: "pyval result"
  weekend_session_type :: "pyval result"
  session_laps :: "laps result"
  session_weather_data :: "table result"
  session_track_status :: "table result"
  session_race_control_messages :: "table result"

text \<open>
  The handle that \<^verbatim>\<open>fastf1.get_session\<close> returns: \<^verbatim>\<open>load\<close> fills it in
  place (here: gives the loaded session) or raises.
\<close>

record handle =
  load :: "session result"

text \<open>
  The FastF1 library as the builder uses it: \<^verbatim>\<open>fastf1.get_session\<close> and
  \<^verbatim>\<open>fastf1.plotting.team_color\<close>, each of which may raise.
\<close>

record fastf1 =
  get_session :: "int \<Rightarrow> string \<Rightarrow> string \<Rightarrow> handle result"
  plotting_team_color :: "pyval \<Rightarrow> pyval result"

section \<open>Driver roster\<close>

text \<open>
  One entry of \<^verbatim>\<open>driver_info\<close>: the dictionary with the keys number, abbreviation
  (field \<open>abbrev\<close>), fullname, team and team_color.
\<close>

record driver_rec =
  number :: string
  abbrev :: pyval
  fullname :: pyval
  team :: pyval
  team_color :: pyval

text \<open>The dictionary built from one row of the results table.\<close>

definition results_record :: "row \<Rightarrow> driver_rec result" where
  "results_record driver =
     and_then (getitem driver ''DriverNumber'') (\<lambda>n.
     and_then (getitem driver ''Abbreviation'') (\<lambda>a.
     and_then (getitem driver ''FullName'') (\<lambda>fn.
     and_then (getitem driver ''TeamName'') (\<lambda>tn.
     and_then (getitem driver ''TeamColor'') (\<lambda>tc.
       Inr \<lparr>number = py_str n, abbrev = a, fullname = fn, team = tn,
            team_color = tc\<rparr>)))))"

text \<open>The loop over \<^verbatim>\<open>results_df.iterrows()\<close>: a raise leaves the loop.\<close>

fun results_loop :: "row list \<Rightarrow> driver_rec list \<Rightarrow> driver_rec list result" where
  "results_loop [] drivers_info = Inr drivers_info"
| "results_loop (driver # rest) drivers_info =
     (case results_record driver of
        Inl e \<Rightarrow> Inl e
      | Inr driver_info \<Rightarrow> results_loop rest (drivers_info @ [driver_info]))"

text \<open>
  The body of the inner \<^verbatim>\<open>try\<close> of the fallback loop for one driver number:
  a raise, no record (\<^verbatim>\<open>get_driver\<close> gave \<open>None\<close>), or the record. The driver
  number is a string, so \<^verbatim>\<open>str(driver_number)\<close> is the number itself; the f-string
  prints the two names with \<^verbatim>\<open>str\<close>.
\<close>

definition fallback_record :: "fastf1 \<Rightarrow> session \<Rightarrow> string \<Rightarrow> driver_rec option result" where
  "fallback_record f s driver_number =
     and_then (get_driver s driver_number) (\<lambda>driver_data.
       case driver_data of
         None \<Rightarrow> Inr None
       | Some dd \<Rightarrow>
           and_then (getattr dd ''Abbreviation'') (\<lambda>a.
           and_then (getattr dd ''FirstName'') (\<lambda>fi.
           and_then (getattr dd ''LastName'') (\<lambda>la.
           and_then (getattr dd ''TeamName'') (\<lambda>tn.
           and_then (plotting_team_color f tn) (\<lambda>tc.
             Inr (Some \<lparr>number = driver_number, abbrev = a,
                        fullname = VStr (py_str fi @ '' '' @ py_str la), team = tn,
                        team_color = tc\<rparr>)))))))"

text \<open>The fallback loop: a raise for one driver number is caught and the loop goes on.\<close>

fun fallback_loop :: "fastf1 \<Rightarrow> session \<Rightarrow> string list \<Rightarrow> driver_rec list \<Rightarrow> driver_rec list" where
  "fallback_loop f s [] drivers_info = drivers_info"
| "fallback_loop f s (driver_number # rest) drivers_info =
     (case fallback_record f s driver_number of
        Inr (Some driver_info) \<Rightarrow> fallback_loop f s rest (drivers_info @ [driver_info])
      | _ \<Rightarrow> fallback_loop f s rest drivers_info)"

text \<open>The body of the outer \<^verbatim>\<open>try\<close> of \<^verbatim>\<open>_get_driver_info\<close>.\<close>

definition driver_info_body :: "fastf1 \<Rightarrow> session \<Rightarrow> driver_rec list result" where
  "driver_info_body f s =
     and_then (hasattr (results s)) (\<lambda>has_results.
       if has_results
       then and_then (results s) (\<lambda>results_df. results_loop results_df [])
       else and_then (drivers s) (\<lambda>ds. Inr (fallback_loop f s ds [])))"

text \<open>\<^verbatim>\<open>_get_driver_info\<close>: any exception of the body is caught and gives \<open>[]\<close>.\<close>

definition get_driver_info :: "fastf1 \<Rightarrow> session \<Rightarrow> driver_rec list result" where
  "get_driver_info f s = (case driver_info_body f s of Inl e \<Rightarrow> Inr [] | Inr r \<Rightarrow> Inr r)"

section \<open>Telemetry\<close>

text \<open>
  The derived channel: \<^verbatim>\<open>car_data['Time'].dt.total_seconds() * car_data['Speed'] / 3.6\<close>,
  row by row, stored as a new last column of a copy of the table.
\<close>

definition add_distance :: "table \<Rightarrow> table result" where
  "add_distance car_data =
     and_then (getcol car_data ''Time'') (\<lambda>time.
     and_then (getcol car_data ''Speed'') (\<lambda>speed.
       Inr (car_data @ [(''Distance'', map2 (\<lambda>t v. t * v / 3.6) time speed)])))"

text \<open>
  The body of the inner \<^verbatim>\<open>try\<close> of \<^verbatim>\<open>_get_telemetry_data\<close> for one driver:
  a raise, nothing to store, or the table to store under the driver's number.
\<close>

definition driver_telemetry :: "session \<Rightarrow> string \<Rightarrow> table option result" where
  "driver_telemetry s driver =
     and_then (session_laps s) (\<lambda>all_laps.
     and_then (pick_driver all_laps driver) (\<lambda>dl.
       if \<not> empty (frame dl)
       then and_then (pick_fastest dl) (\<lambda>fastest_lap.
              case fastest_lap of
                None \<Rightarrow> Inr None
              | Some fl \<Rightarrow>
                  and_then (get_car_data fl) (\<lambda>car_data.
                    if \<not> empty car_data
                    then (if ''Distance'' \<notin> set (columns car_data)
                          then and_then (add_distance car_data) (\<lambda>cd. Inr (Some cd))
                          else Inr (Some car_data))
                    else Inr None))
       else Inr None))"

text \<open>The loop over \<^verbatim>\<open>session.drivers\<close>: a raise for one driver is caught.\<close>

fun telemetry_loop :: "session \<Rightarrow> string list \<Rightarrow> (string \<rightharpoonup> table) \<Rightarrow> (string \<rightharpoonup> table)" where
  "telemetry_loop s [] telemetry_data = telemetry_data"
| "telemetry_loop s (driver # rest) telemetry_data =
     (case driver_telemetry s driver of
        Inr (Some car_data) \<Rightarrow> telemetry_loop s rest (telemetry_data(driver \<mapsto> car_data))
      | _ \<Rightarrow> telemetry_loop s rest telemetry_data)"

definition telemetry_body :: "session \<Rightarrow> (string \<rightharpoonup> table) result" where
  "telemetry_body s = and_then (drivers s) (\<lambda>ds. Inr (telemetry_loop s ds Map.empty))"

text \<open>\<^verbatim>\<open>_get_telemetry_data\<close>: any exception of the body is caught and gives \<open>{}\<close>.\<close>

definition get_telemetry_data :: "session \<Rightarrow> (string \<rightharpoonup> table) result" where
  "get_telemetry_data s =
     (case telemetry_body s of Inl e \<Rightarrow> Inr Map.empty | Inr m \<Rightarrow> Inr m)"

section \<open>Event information\<close>

text \<open>
  A value of the \<^verbatim>\<open>event_info\<close> dictionary: a cell of the event record or of the
  session, or the circuit length, which is the float that \<^verbatim>\<open>.max()\<close> gives
  (\<open>NaN\<close> on a column with no row).
\<close>

datatype ev_value = EvCell pyval | EvFloat real | EvNaN

definition col_max :: "real list \<Rightarrow> ev_value" where
  "col_max c = (case c of [] \<Rightarrow> EvNaN | x # xs \<Rightarrow> EvFloat (fold max xs x))"

text \<open>The update from the event record, when the session has one.\<close>

definition event_step :: "session \<Rightarrow> (string \<rightharpoonup> ev_value) \<Rightarrow> (string \<rightharpoonup> ev_value) result" where
  "event_step s event_info =
     and_then (hasattr (event s)) (\<lambda>has_event.
       if has_event
       then and_then (event s) (\<lambda>ev.
            and_then (getitem ev ''EventName'') (\<lambda>n.
            and_then (getitem ev ''Country'') (\<lambda>c.
            and_then (getitem ev ''Location'') (\<lambda>l.
            and_then (getitem ev ''OfficialEventName'') (\<lambda>on.
            and_then (getitem ev ''F1ApiSupport'') (\<lambda>api.
              Inr (event_info(''Name'' \<mapsto> EvCell n, ''Country'' \<mapsto> EvCell c,
                     ''Location'' \<mapsto> EvCell l, ''OfficialName'' \<mapsto> EvCell on,
                     ''F1ApiSupport'' \<mapsto> EvCell api))))))))
       else Inr event_info)"

text \<open>
  The body of the inner \<^verbatim>\<open>try\<close>: the circuit length when the circuit information
  is there and has corners, nothing otherwise, or a raise.
\<close>

definition circuit_step :: "session \<Rightarrow> ev_value option result" where
  "circuit_step s =
     and_then (get_circuit_info s) (\<lambda>circuit_info.
       case circuit_info of
         None \<Rightarrow> Inr None
       | Some ci \<Rightarrow>
           and_then (hasattr (corners ci)) (\<lambda>has_corners.
             if has_corners
             then and_then (corners ci) (\<lambda>cs.
                  and_then (getcol cs ''Distance'') (\<lambda>d. Inr (Some (col_max d))))
             else Inr None))"

text \<open>The update with the session's date and names.\<close>

definition session_step :: "session \<Rightarrow> (string \<rightharpoonup> ev_value) \<Rightarrow> (string \<rightharpoonup> ev_value) result" where
  "session_step s event_info =
     and_then (date s) (\<lambda>d.
     and_then (name s) (\<lambda>n.
     and_then (hasattr (weekend_session_type s)) (\<lambda>has_wst.
     and_then (if has_wst then weekend_session_type s else Inr VNone) (\<lambda>w.
       Inr (event_info(''Date'' \<mapsto> EvCell d, ''SessionType'' \<mapsto> EvCell n,
              ''WeekendSessionType'' \<mapsto> EvCell w))))))"

text \<open>\<^verbatim>\<open>{k: v for k, v in event_info.items() if v is not None}\<close>\<close>

definition filter_none :: "(string \<rightharpoonup> ev_value) \<Rightarrow> (string \<rightharpoonup> ev_value)" where
  "filter_none event_info =
     (\<lambda>k. case event_info k of Some (EvCell VNone) \<Rightarrow> None | v \<Rightarrow> v)"

definition event_info_body :: "session \<Rightarrow> (string \<rightharpoonup> ev_value) result" where
  "event_info_body s =
     and_then (event_step s Map.empty) (\<lambda>e1.
     and_then (session_step s
                 (case circuit_step s of
                    Inr (Some circuit_length) \<Rightarrow> e1(''CircuitLength'' \<mapsto> circuit_length)
                  | _ \<Rightarrow> e1)) (\<lambda>e3.
       Inr (filter_none e3)))"

text \<open>\<^verbatim>\<open>_get_event_info\<close>: any exception of the body is caught and gives \<open>{}\<close>.\<close>

definition get_event_info :: "session \<Rightarrow> (string \<rightharpoonup> ev_value) result" where
  "get_event_info s =
     (case event_info_body s of Inl e \<Rightarrow> Inr Map.empty | Inr m \<Rightarrow> Inr m)"

section \<open>The bundle\<close>

record SessionData =
  session :: session
  timing :: table
  telemetry :: "string \<rightharpoonup> table"
  weather :: table
  track_status :: table
  race_control :: table
  driver_info :: "driver_rec list"
  event_info :: "string \<rightharpoonup> ev_value"

text \<open>\<^verbatim>\<open>session.a if hasattr(session, 'a') else pd.DataFrame()\<close>\<close>

definition attr_or_empty :: "table result \<Rightarrow> table result" where
  "attr_or_empty a = and_then (hasattr a) (\<lambda>has. if has then a else Inr DataFrame)"

text \<open>The body of the \<^verbatim>\<open>try\<close> of \<^verbatim>\<open>load_session_data\<close>.\<close>

definition load_body :: "fastf1 \<Rightarrow> int \<Rightarrow> string \<Rightarrow> string \<Rightarrow> SessionData result" where
  "load_body f year gp session_type =
     and_then (get_session f year gp session_type) (\<lambda>h.
     and_then (load h) (\<lambda>s.
     and_then (session_laps s) (\<lambda>all_laps.
     and_then (get_telemetry_data s) (\<lambda>tel.
     and_then (get_driver_info f s) (\<lambda>di.
     and_then (get_event_info s) (\<lambda>ei.
     and_then (attr_or_empty (session_weather_data s)) (\<lambda>w.
     and_then (attr_or_empty (session_track_status s)) (\<lambda>ts.
     and_then (attr_or_empty (session_race_control_messages s)) (\<lambda>rc.
       Inr \<lparr>session = s, timing = laps_frame all_laps, telemetry = tel, weather = w,
            track_status = ts, race_control = rc, driver_info = di,
            event_info = ei\<rparr>)))))))))"

text \<open>\<^verbatim>\<open>load_session_data\<close>: the handler logs and raises the exception again.\<close>

definition load_session_data :: "fastf1 \<Rightarrow> int \<Rightarrow> string \<Rightarrow> string \<Rightarrow> SessionData result" where
  "load_session_data f year gp session_type =
     (case load_body f year gp session_type of Inl e \<Rightarrow> Inl e | Inr session_data \<Rightarrow> Inr session_data)"

section \<open>Example sessions\<close>

text \<open>
  A qualifying session with two drivers. The car data of driver 16 has no
  \<^verbatim>\<open>Distance\<close> channel, that of driver 44 has one.
\<close>

definition row16 :: row where
  "row16 = map_of [(''DriverNumber'', VStr ''16''), (''Abbreviation'', VStr ''LEC''),
     (''FullName'', VStr ''Charles Leclerc''), (''TeamName'', VStr ''Ferrari''),
     (''TeamColor'', VStr ''dc0000'')]"

definition row44 :: row where
  "row44 = map_of [(''DriverNumber'', VStr ''44''), (''Abbreviation'', VStr ''HAM''),
     (''FullName'', VStr ''Lewis Hamilton''), (''TeamName'', VStr ''Mercedes''),
     (''TeamColor'', VStr ''00d2be'')]"

definition data16 :: row where
  "data16 = map_of [(''Abbreviation'', VStr ''LEC''), (''FirstName'', VStr ''Charles''),
     (''LastName'', VStr ''Leclerc''), (''TeamName'', VStr ''Ferrari'')]"

definition data44 :: row where
  "data44 = map_of [(''Abbreviation'', VStr ''HAM''), (''FirstName'', VStr ''Lewis''),
     (''LastName'', VStr ''Hamilton''), (''TeamName'', VStr ''Mercedes'')]"

definition monaco :: row where
  "monaco = map_of [(''EventName'', VStr ''Monaco Grand Prix''), (''Country'', VStr ''Monaco''),
     (''Location'', VStr ''Monte Carlo''), (''OfficialEventName'', VStr ''GP de Monaco''),
     (''F1ApiSupport'', VBool True)]"

definition car16 :: table where
  "car16 = [(''Time'', [0, 1, 2]), (''Speed'', [0, 180, 360])]"

definition car44 :: table where
  "car44 = [(''Time'', [0, 1]), (''Speed'', [90, 72]), (''Distance'', [0, 20])]"

definition example_laps :: laps where
  "example_laps =
     \<lparr>laps_frame = [(''LapNumber'', [1, 1])],
      pick_driver = (\<lambda>d.
        if d = ''16''
        then Inr \<lparr>frame = [(''LapNumber'', [1])],
                  pick_fastest = Inr (Some \<lparr>get_car_data = Inr car16\<rparr>)\<rparr>
        else if d = ''44''
        then Inr \<lparr>frame = [(''LapNumber'', [1])],
                  pick_fastest = Inr (Some \<lparr>get_car_data = Inr car44\<rparr>)\<rparr>
        else Inr \<lparr>frame = [], pick_fastest = Inr None\<rparr>)\<rparr>"

definition example_session :: session where
  "example_session =
     \<lparr>results = Inr [row16, row44],
      drivers = Inr [''16'', ''44''],
      get_driver = (\<lambda>d. if d = ''16'' then Inr (Some data16)
                         else if d = ''44'' then Inr (Some data44) else Inl KeyError),
      event = Inr monaco,
      get_circuit_info = Inr (Some \<lparr>corners = Inr [(''Distance'', [100, 3337, 250])]\<rparr>),
      date = Inr (VObj ''2023-05-27''),
      name = Inr (VStr ''Qualifying''),
      weekend_session_type = Inl AttributeError,
      session_laps = Inr example_laps,
      session_weather_data = Inr [(''AirTemp'', [24])],
      session_track_status = Inr [(''Status'', [1])],
      session_race_control_messages = Inl AttributeError\<rparr>"

text \<open>
  A library whose \<^verbatim>\<open>get_session\<close> resolves every request to a handle that loads
  the given session, and whose colour table knows one team.
\<close>

definition store_with :: "session \<Rightarrow> fastf1" where
  "store_with s =
     \<lparr>get_session = (\<lambda>year gp session_type. Inr \<lparr>load = Inr s\<rparr>),
      plotting_team_color = (\<lambda>tn. if tn = VStr ''Ferrari'' then Inr (VStr ''dc0000'')
                                   else Inl KeyError)\<rparr>"

text \<open>The labels that \<open>results_record\<close> reads in a row of the results table.\<close>

definition results_columns :: "string list" where
  "results_columns = [''DriverNumber'', ''Abbreviation'', ''FullName'', ''TeamName'', ''TeamColor'']"

text \<open>The two results rows of a table that has no \<^verbatim>\<open>TeamColor\<close> column.\<close>

definition short_row16 :: row where
  "short_row16 = map_of [(''DriverNumber'', VStr ''16''), (''Abbreviation'', VStr ''LEC''),
     (''FullName'', VStr ''Charles Leclerc''), (''TeamName'', VStr ''Ferrari'')]"

definition short_row44 :: row where
  "short_row44 = map_of [(''DriverNumber'', VStr ''44''), (''Abbreviation'', VStr ''HAM''),
     (''FullName'', VStr ''Lewis Hamilton''), (''TeamName'', VStr ''Mercedes'')]"

text \<open>The example session with that results table.\<close>

definition incomplete_results_session :: session where
  "incomplete_results_session = example_session\<lparr>results := Inr [short_row16, short_row44]\<rparr>"

text \<open>The example session without a results table.\<close>

definition fallback_session :: session where
  "fallback_session = example_session\<lparr>results := Inl AttributeError\<rparr>"

text \<open>The roster entry of driver 16 on the fallback path.\<close>

definition rec16 :: driver_rec where
  "rec16 = \<lparr>number = ''16'', abbrev = VStr ''LEC'', fullname = VStr ''Charles Leclerc'',
            team = VStr ''Ferrari'', team_color = VStr ''dc0000''\<rparr>"

text \<open>The example session when the lap data could not be loaded: reading the laps raises.\<close>

definition lapless_session :: session where
  "lapless_session = example_session\<lparr>session_laps := Inl (OtherError ''DataNotLoadedError'')\<rparr>"

text \<open>A library that cannot resolve any session.\<close>

definition offline_store :: fastf1 where
  "offline_store =
     \<lparr>get_session = (\<lambda>year gp session_type. Inl (OtherError ''no network'')),
      plotting_team_color = (\<lambda>tn. Inl KeyError)\<rparr>"

text \<open>The example session when the lap selection of driver 44 raises.\<close>

definition failing_laps :: laps where
  "failing_laps =
     example_laps\<lparr>pick_driver :=
       (\<lambda>d. if d = ''44'' then Inl (OtherError ''no lap data'') else pick_driver example_laps d)\<rparr>"

definition one_failing_session :: session where
  "one_failing_session = example_session\<lparr>session_laps := Inr failing_laps\<rparr>"

text \<open>The laps and the fastest lap of driver 16 in the example.\<close>

definition lap16 :: lap where
  "lap16 = \<lparr>get_car_data = Inr car16\<rparr>"

definition laps16 :: driver_laps where
  "laps16 = \<lparr>frame = [(''LapNumber'', [1])], pick_fastest = Inr (Some lap16)\<rparr>"

text \<open>The example session with a results table that is exposed and has no row.\<close>

definition empty_results_session :: session where
  "empty_results_session = example_session\<lparr>results := Inr []\<rparr>"

text \<open>The example session with an event record that lacks the country.\<close>

definition partial_event_session :: session where
  "partial_event_session =
     example_session\<lparr>event := Inr (map_of [(''EventName'', VStr ''Monaco Grand Prix'')])\<rparr>"

text \<open>The example session when the circuit information cannot be fetched.\<close>

definition no_circuit_session :: session where
  "no_circuit_session = example_session\<lparr>get_circuit_info := Inl (OtherError ''no circuit data'')\<rparr>"

text \<open>
  The example session when the lap selection of driver 44 raises and the car data of
  driver 16 has a \<^verbatim>\<open>Time\<close> channel only.
\<close>

definition car_no_speed :: table where
  "car_no_speed = [(''Time'', [0, 1])]"

definition lap16_no_speed :: lap where
  "lap16_no_speed = \<lparr>get_car_data = Inr car_no_speed\<rparr>"

definition laps16_no_speed :: driver_laps where
  "laps16_no_speed = \<lparr>frame = [(''LapNumber'', [1])], pick_fastest = Inr (Some lap16_no_speed)\<rparr>"

definition no_speed_laps :: laps where
  "no_speed_laps =
     example_laps\<lparr>pick_driver :=
       (\<lambda>d. if d = ''44'' then Inl (OtherError ''no lap data'')
            else if d = ''16'' then Inr laps16_no_speed
            else pick_driver example_laps d)\<rparr>"

definition no_speed_session :: session where
  "no_speed_session = example_session\<lparr>session_laps := Inr no_speed_laps\<rparr>"


section \<open>Sequencing, attribute probes and the loops\<close>

lemma and_then_Inl [simp]: "and_then (Inl e) k = Inl e"
  by (simp add: and_then_def)

lemma and_then_Inr [simp]: "and_then (Inr v) k = k v"
  by (simp add: and_then_def)

lemma and_then_eq_Inr: "and_then m k = Inr r \<longleftrightarrow> (\<exists>v. m = Inr v \<and> k v = Inr r)"
  by (cases m) simp_all

lemma and_then_eq_Inl: "and_then m k = Inl e \<longleftrightarrow> m = Inl e \<or> (\<exists>v. m = Inr v \<and> k v = Inl e)"
  by (cases m) auto

lemma hasattr_simps [simp]:
  "hasattr (Inl AttributeError) = Inr False"
  "hasattr (Inl KeyError) = Inl KeyError"
  "hasattr (Inl (OtherError x)) = Inl (OtherError x)"
  "hasattr (Inr v) = Inr True"
  by (simp_all add: hasattr_def)

lemma hasattr_eq_Inl: "hasattr a = Inl e \<longleftrightarrow> a = Inl e \<and> e \<noteq> AttributeError"
  by (cases a; cases e) (auto simp: hasattr_def split: exn.splits)

lemma attr_or_empty_simps [simp]:
  "attr_or_empty (Inl AttributeError) = Inr DataFrame"
  "attr_or_empty (Inr t) = Inr t"
  by (simp_all add: attr_or_empty_def)

lemma attr_or_empty_eq_Inl: "attr_or_empty a = Inl e \<longleftrightarrow> a = Inl e \<and> e \<noteq> AttributeError"
  by (cases a; cases e) (auto simp: attr_or_empty_def hasattr_def split: exn.splits)

lemma results_loop_acc:
  "results_loop rows acc = (case results_loop rows [] of Inl e \<Rightarrow> Inl e | Inr r \<Rightarrow> Inr (acc @ r))"
proof (induction rows arbitrary: acc)
  case Nil
  then show ?case by simp
next
  case (Cons r rows)
  show ?case
  proof (cases "results_record r")
    case (Inl e)
    then show ?thesis by simp
  next
    case (Inr d)
    then show ?thesis
      using Cons.IH [of "acc @ [d]"] Cons.IH [of "[d]"]
      by (simp split: sum.splits)
  qed
qed

lemma results_loop_ok:
  "\<forall>r \<in> set rows. \<exists>d. results_record r = Inr d \<Longrightarrow>
   \<exists>ds. results_loop rows acc = Inr (acc @ ds) \<and> map Inr ds = map results_record rows"
proof (induction rows arbitrary: acc)
  case Nil
  then show ?case by simp
next
  case (Cons r rows)
  then obtain d where d: "results_record r = Inr d" by auto
  from Cons obtain ds where "results_loop rows (acc @ [d]) = Inr ((acc @ [d]) @ ds)"
    and "map Inr ds = map results_record rows"
    by (metis list.set_intros(2))
  with d show ?case
    by (intro exI [of _ "d # ds"]) simp
qed

lemma results_loop_fail:
  "\<exists>r \<in> set rows. \<exists>e. results_record r = Inl e \<Longrightarrow> \<exists>e. results_loop rows acc = Inl e"
proof (induction rows arbitrary: acc)
  case Nil
  then show ?case by simp
next
  case (Cons r rows)
  then show ?case
    by (cases "results_record r") auto
qed

lemma fallback_loop_eq:
  "fallback_loop f s ds acc =
     acc @ List.map_filter (\<lambda>d. case fallback_record f s d of Inr (Some r) \<Rightarrow> Some r | _ \<Rightarrow> None) ds"
  by (induction ds arbitrary: acc) (auto split: sum.splits option.splits)

lemma telemetry_loop_apply:
  "telemetry_loop s ds m k =
     (if k \<in> set ds then (case driver_telemetry s k of Inr (Some t) \<Rightarrow> Some t | _ \<Rightarrow> m k) else m k)"
  by (induction ds arbitrary: m) (auto split: sum.splits option.splits)

section \<open>Reading rows\<close>

lemma getitem_cases:
  "getitem r k = Inl KeyError \<and> r k = None \<or> (\<exists>v. getitem r k = Inr v \<and> r k = Some v)"
  by (cases "r k") (simp_all add: getitem_def)

lemma getattr_cases:
  "getattr r k = Inl AttributeError \<and> r k = None \<or> (\<exists>v. getattr r k = Inr v \<and> r k = Some v)"
  by (cases "r k") (simp_all add: getattr_def)

lemma results_columns_dom:
  "set results_columns \<subseteq> dom r \<longleftrightarrow>
     r ''DriverNumber'' \<noteq> None \<and> r ''Abbreviation'' \<noteq> None \<and> r ''FullName'' \<noteq> None \<and>
     r ''TeamName'' \<noteq> None \<and> r ''TeamColor'' \<noteq> None"
  unfolding results_columns_def
  by (simp only: list.set insert_subset empty_subsetI domIff simp_thms)

lemma results_record_complete:
  assumes "set results_columns \<subseteq> dom r"
  shows "\<exists>d. results_record r = Inr d \<and> (\<exists>v. r ''DriverNumber'' = Some v \<and> number d = py_str v)"
  using assms unfolding results_columns_dom results_record_def
  using getitem_cases [of r "''DriverNumber''"] getitem_cases [of r "''Abbreviation''"]
    getitem_cases [of r "''FullName''"] getitem_cases [of r "''TeamName''"]
    getitem_cases [of r "''TeamColor''"]
  by (elim disjE conjE exE) simp_all

lemma results_record_incomplete:
  assumes "\<not> set results_columns \<subseteq> dom r"
  shows "results_record r = Inl KeyError"
  using assms unfolding results_columns_dom results_record_def
  using getitem_cases [of r "''DriverNumber''"] getitem_cases [of r "''Abbreviation''"]
    getitem_cases [of r "''FullName''"] getitem_cases [of r "''TeamName''"]
    getitem_cases [of r "''TeamColor''"]
  by (elim disjE conjE exE) simp_all

lemma driver_info_results:
  assumes "results s = Inr rows"
  shows "get_driver_info f s = (case results_loop rows [] of Inl e \<Rightarrow> Inr [] | Inr r \<Rightarrow> Inr r)"
  using assms by (simp add: get_driver_info_def driver_info_body_def)

lemma driver_info_fallback:
  assumes "results s = Inl AttributeError" and "drivers s = Inr ds"
  shows "get_driver_info f s = Inr (fallback_loop f s ds [])"
  using assms by (simp add: get_driver_info_def driver_info_body_def)

lemma row16_complete: "set results_columns \<subseteq> dom row16"
  unfolding results_columns_dom by (simp add: row16_def)

lemma row44_complete: "set results_columns \<subseteq> dom row44"
  unfolding results_columns_dom by (simp add: row44_def)

lemma short_row16_incomplete: "\<not> set results_columns \<subseteq> dom short_row16"
  unfolding results_columns_dom by (simp add: short_row16_def)

lemma example_results: "results example_session = Inr [row16, row44]"
  by (simp add: example_session_def)

lemma results_record_row16: "results_record row16 = Inr rec16"
  by (simp add: results_record_def row16_def getitem_def rec16_def)

section \<open>The roster from the results table\<close>

text \<open>
  Claim C10, as amended. When the session has a results attribute, the roster never
  depends on the driver list, on the per-driver lookup or on the colour table (the
  fallback path is not taken). It has exactly one record per row, in row order and built
  from that row, when every row carries the five columns that are read; a table with no
  row gives the empty roster; a row that lacks one of the columns gives the empty roster
  for the whole table.
\<close>

theorem results_roster:
  assumes "results s = Inr rows"
  shows "((\<forall>r \<in> set rows. set results_columns \<subseteq> dom r) \<longrightarrow>
            (\<exists>ds. get_driver_info f s = Inr ds \<and> map Inr ds = map results_record rows)) \<and>
         ((\<exists>r \<in> set rows. \<not> set results_columns \<subseteq> dom r) \<longrightarrow> get_driver_info f s = Inr []) \<and>
         (rows = [] \<longrightarrow> get_driver_info f s = Inr []) \<and>
         get_driver_info f' (s\<lparr>drivers := ds', get_driver := g'\<rparr>) = get_driver_info f s"
proof (intro conjI impI)
  assume "\<forall>r \<in> set rows. set results_columns \<subseteq> dom r"
  then have "\<forall>r \<in> set rows. \<exists>d. results_record r = Inr d"
    by (metis results_record_complete)
  from results_loop_ok [OF this, of "[]"] show
    "\<exists>ds. get_driver_info f s = Inr ds \<and> map Inr ds = map results_record rows"
    by (auto simp: driver_info_results [OF assms])
next
  assume "\<exists>r \<in> set rows. \<not> set results_columns \<subseteq> dom r"
  then have "\<exists>r \<in> set rows. \<exists>e. results_record r = Inl e"
    by (metis results_record_incomplete)
  from results_loop_fail [OF this, of "[]"] show "get_driver_info f s = Inr []"
    by (auto simp: driver_info_results [OF assms])
next
  assume "rows = []"
  then show "get_driver_info f s = Inr []"
    by (simp add: driver_info_results [OF assms])
next
  show "get_driver_info f' (s\<lparr>drivers := ds', get_driver := g'\<rparr>) = get_driver_info f s"
    using assms by (simp add: get_driver_info_def driver_info_body_def)
qed

theorem results_roster_witness:
  "results example_session = Inr [row16, row44] \<and>
   (\<exists>ds. get_driver_info (store_with example_session) example_session = Inr ds \<and>
         map Inr ds = map results_record [row16, row44])"
  using results_roster [OF example_results, of "store_with example_session"] example_results
    row16_complete row44_complete
  by simp

text \<open>
  The claim as it stands fails on a results table without the \<^verbatim>\<open>TeamColor\<close>
  column: the table has two rows and the roster has none.
\<close>

theorem results_incomplete_counterexample:
  "results incomplete_results_session = Inr [short_row16, short_row44] \<and>
   length [short_row16, short_row44] = 2 \<and>
   get_driver_info (store_with incomplete_results_session) incomplete_results_session = Inr []"
  by (simp add: incomplete_results_session_def get_driver_info_def driver_info_body_def
      results_record_incomplete [OF short_row16_incomplete])

lemma fallback_record_Some:
  "fallback_record f s d = Inr (Some r) \<longleftrightarrow>
     (\<exists>dd a fi la tn tc. get_driver s d = Inr (Some dd) \<and>
        dd ''Abbreviation'' = Some a \<and> dd ''FirstName'' = Some fi \<and>
        dd ''LastName'' = Some la \<and> dd ''TeamName'' = Some tn \<and>
        plotting_team_color f tn = Inr tc \<and>
        r = \<lparr>number = d, abbrev = a, fullname = VStr (py_str fi @ '' '' @ py_str la),
             team = tn, team_color = tc\<rparr>)"
proof (cases "get_driver s d")
  case (Inl e)
  then show ?thesis by (simp add: fallback_record_def)
next
  case (Inr o1)
  show ?thesis
  proof (cases o1)
    case None
    with Inr show ?thesis by (simp add: fallback_record_def)
  next
    case (Some dd)
    show ?thesis
      unfolding fallback_record_def Inr Some
      using getattr_cases [of dd "''Abbreviation''"] getattr_cases [of dd "''FirstName''"]
        getattr_cases [of dd "''LastName''"] getattr_cases [of dd "''TeamName''"]
      by (elim disjE conjE exE; cases "plotting_team_color f (the (dd ''TeamName''))") auto
  qed
qed

lemma set_map_filter: "r \<in> set (List.map_filter g xs) \<longleftrightarrow> (\<exists>x \<in> set xs. g x = Some r)"
  by (induction xs) (auto split: option.splits)

section \<open>The roster from the driver list\<close>

text \<open>
  Claim C5, as amended. When the session exposes no results table and its driver list can
  be read, the roster holds, in the order of the driver list, exactly one record for each
  driver number whose lookup returns a record (not \<open>None\<close>), whose
  \<^verbatim>\<open>Abbreviation\<close>, \<^verbatim>\<open>FirstName\<close>, \<^verbatim>\<open>LastName\<close> and \<^verbatim>\<open>TeamName\<close> can be read
  and whose team colour the colour table gives; the record has the driver number, the
  abbreviation, the two names joined by a blank, the team and that colour. Every other
  driver number is skipped, and nothing is raised.
\<close>

theorem fallback_roster:
  assumes "results s = Inl AttributeError" and "drivers s = Inr ds"
  shows "get_driver_info f s =
           Inr (List.map_filter
                  (\<lambda>d. case fallback_record f s d of Inr (Some r) \<Rightarrow> Some r | _ \<Rightarrow> None) ds) \<and>
         (\<forall>d r. fallback_record f s d = Inr (Some r) \<longleftrightarrow>
            (\<exists>dd a fi la tn tc. get_driver s d = Inr (Some dd) \<and>
               dd ''Abbreviation'' = Some a \<and> dd ''FirstName'' = Some fi \<and>
               dd ''LastName'' = Some la \<and> dd ''TeamName'' = Some tn \<and>
               plotting_team_color f tn = Inr tc \<and>
               r = \<lparr>number = d, abbrev = a, fullname = VStr (py_str fi @ '' '' @ py_str la),
                    team = tn, team_color = tc\<rparr>))"
  using driver_info_fallback [OF assms] fallback_record_Some
  by (simp add: fallback_loop_eq)

lemma fallback_results: "results fallback_session = Inl AttributeError"
  by (simp add: fallback_session_def)

lemma fallback_drivers: "drivers fallback_session = Inr [''16'', ''44'']"
  by (simp add: fallback_session_def example_session_def)

lemma fallback_record16:
  "fallback_record (store_with fallback_session) fallback_session ''16'' = Inr (Some rec16)"
  by (simp add: fallback_record_def fallback_session_def example_session_def data16_def
      getattr_def store_with_def rec16_def)

lemma fallback_record44:
  "fallback_record (store_with fallback_session) fallback_session ''44'' = Inl KeyError"
  by (simp add: fallback_record_def fallback_session_def example_session_def data44_def
      getattr_def store_with_def)

theorem fallback_roster_witness:
  "results fallback_session = Inl AttributeError \<and>
   drivers fallback_session = Inr [''16'', ''44''] \<and>
   get_driver_info (store_with fallback_session) fallback_session = Inr [rec16]"
  using fallback_roster [OF fallback_results fallback_drivers, of "store_with fallback_session"]
    fallback_results fallback_drivers
  by (simp add: fallback_record16 fallback_record44)

text \<open>
  The claim as it stands fails when the lookup of a driver succeeds and the colour table
  does not know the team: the lookup of driver 44 returns a record, and driver 44 is not in
  the roster.
\<close>

theorem fallback_colour_counterexample:
  "results fallback_session = Inl AttributeError \<and>
   drivers fallback_session = Inr [''16'', ''44''] \<and>
   get_driver fallback_session ''44'' = Inr (Some data44) \<and>
   get_driver_info (store_with fallback_session) fallback_session = Inr [rec16]"
  by (simp add: driver_info_fallback [OF fallback_results fallback_drivers]
      fallback_record16 fallback_record44 fallback_results fallback_drivers)
    (simp add: fallback_session_def example_session_def)

section \<open>What the helpers and the loader return\<close>

lemma get_driver_info_returns:
  "get_driver_info f s = Inr (case driver_info_body f s of Inl e \<Rightarrow> [] | Inr r \<Rightarrow> r)"
  by (simp add: get_driver_info_def split: sum.splits)

lemma get_telemetry_data_returns:
  "get_telemetry_data s = Inr (case telemetry_body s of Inl e \<Rightarrow> Map.empty | Inr m \<Rightarrow> m)"
  by (simp add: get_telemetry_data_def split: sum.splits)

lemma get_event_info_returns:
  "get_event_info s = Inr (case event_info_body s of Inl e \<Rightarrow> Map.empty | Inr m \<Rightarrow> m)"
  by (simp add: get_event_info_def split: sum.splits)

lemma load_session_data_body: "load_session_data f y g t = load_body f y g t"
  by (simp add: load_session_data_def split: sum.splits)

lemma load_session_data_eq_Inr:
  "load_session_data f y g t = Inr b \<longleftrightarrow>
     (\<exists>h l. get_session f y g t = Inr h \<and> load h = Inr (session b) \<and>
        session_laps (session b) = Inr l \<and> timing b = laps_frame l \<and>
        get_telemetry_data (session b) = Inr (telemetry b) \<and>
        get_driver_info f (session b) = Inr (driver_info b) \<and>
        get_event_info (session b) = Inr (event_info b) \<and>
        attr_or_empty (session_weather_data (session b)) = Inr (weather b) \<and>
        attr_or_empty (session_track_status (session b)) = Inr (track_status b) \<and>
        attr_or_empty (session_race_control_messages (session b)) = Inr (race_control b))"
  unfolding load_session_data_body load_body_def and_then_eq_Inr
  by (cases b) auto

lemma load_session_data_eq_Inl:
  "load_session_data f y g t = Inl e \<longleftrightarrow>
     get_session f y g t = Inl e \<or>
     (\<exists>h. get_session f y g t = Inr h \<and>
        (load h = Inl e \<or>
         (\<exists>s. load h = Inr s \<and>
            (session_laps s = Inl e \<or>
             (\<not> isl (session_laps s) \<and>
                (attr_or_empty (session_weather_data s) = Inl e \<or>
                 (\<not> isl (attr_or_empty (session_weather_data s)) \<and>
                    (attr_or_empty (session_track_status s) = Inl e \<or>
                     (\<not> isl (attr_or_empty (session_track_status s)) \<and>
                        attr_or_empty (session_race_control_messages s) = Inl e)))))))))"
proof (cases "get_session f y g t")
  case (Inl e')
  then show ?thesis by (simp add: load_session_data_body load_body_def)
next
  case h: (Inr h)
  show ?thesis
  proof (cases "load h")
    case (Inl e')
    with h show ?thesis by (simp add: load_session_data_body load_body_def)
  next
    case s: (Inr s)
    show ?thesis
    proof (cases "session_laps s")
      case (Inl e')
      with h s show ?thesis by (simp add: load_session_data_body load_body_def)
    next
      case l: (Inr l)
      from h s l show ?thesis
        by (cases "attr_or_empty (session_weather_data s)";
            cases "attr_or_empty (session_track_status s)";
            cases "attr_or_empty (session_race_control_messages s)")
          (simp_all add: load_session_data_body load_body_def
            get_telemetry_data_returns get_driver_info_returns get_event_info_returns)
    qed
  qed
qed

section \<open>Which exceptions leave the loader\<close>

text \<open>
  Claim C2, as amended. The three extraction helpers always return a value. The loader
  raises \<open>e\<close> exactly when the resolve step raises \<open>e\<close>, or the load step raises
  \<open>e\<close>, or, after a load that returned, reading the laps of the session raises
  \<open>e\<close>, or the probe of the weather, track-status or race-control attribute raises
  \<open>e\<close> (an exception other than AttributeError); the exception is the one that was
  raised, unchanged.
\<close>

theorem exceptions_propagated:
  "(\<exists>r. get_driver_info f s = Inr r) \<and>
   (\<exists>m. get_event_info s = Inr m) \<and>
   (\<exists>m. get_telemetry_data s = Inr m) \<and>
   (load_session_data f y g t = Inl e \<longleftrightarrow>
      get_session f y g t = Inl e \<or>
      (\<exists>h. get_session f y g t = Inr h \<and>
         (load h = Inl e \<or>
          (\<exists>s'. load h = Inr s' \<and>
             (session_laps s' = Inl e \<or>
              (\<not> isl (session_laps s') \<and>
                 (attr_or_empty (session_weather_data s') = Inl e \<or>
                  (\<not> isl (attr_or_empty (session_weather_data s')) \<and>
                     (attr_or_empty (session_track_status s') = Inl e \<or>
                      (\<not> isl (attr_or_empty (session_track_status s')) \<and>
                         attr_or_empty (session_race_control_messages s') = Inl e))))))))))"
proof (intro conjI)
  show "\<exists>r. get_driver_info f s = Inr r"
    using get_driver_info_returns by blast
  show "\<exists>m. get_event_info s = Inr m"
    using get_event_info_returns by blast
  show "\<exists>m. get_telemetry_data s = Inr m"
    using get_telemetry_data_returns by blast
qed (rule load_session_data_eq_Inl)

theorem exceptions_propagated_witness:
  "get_session offline_store 2023 ''Monaco'' ''Q'' = Inl (OtherError ''no network'') \<and>
   load_session_data offline_store 2023 ''Monaco'' ''Q'' = Inl (OtherError ''no network'')"
  using exceptions_propagated [of offline_store example_session 2023 "''Monaco''" "''Q''"
      "OtherError ''no network''"]
  by (simp add: offline_store_def)

text \<open>
  The claim as it stands fails when the load step returns and the lap data is not
  there: the resolve step and the load step do not raise, and the loader raises the
  exception of the read of the laps.
\<close>

theorem lap_read_raises_counterexample:
  "get_session (store_with lapless_session) 2023 ''Monaco'' ''Q'' = Inr \<lparr>load = Inr lapless_session\<rparr> \<and>
   load \<lparr>load = Inr lapless_session\<rparr> = Inr lapless_session \<and>
   load_session_data (store_with lapless_session) 2023 ''Monaco'' ''Q'' =
     Inl (OtherError ''DataNotLoadedError'')"
  by (simp add: load_session_data_body load_body_def store_with_def lapless_session_def)

lemma Inr_projr: "\<forall>e. x \<noteq> Inl e \<Longrightarrow> x = Inr (projr x)"
  by (cases x) simp_all

lemma load_session_data_returns:
  assumes "get_session f y g t = Inr h" and "load h = Inr s" and "session_laps s = Inr l"
    and "attr_or_empty (session_weather_data s) = Inr w"
    and "attr_or_empty (session_track_status s) = Inr ts"
    and "attr_or_empty (session_race_control_messages s) = Inr rc"
  shows "load_session_data f y g t =
           Inr \<lparr>session = s, timing = laps_frame l,
                telemetry = (case telemetry_body s of Inl e \<Rightarrow> Map.empty | Inr m \<Rightarrow> m),
                weather = w, track_status = ts, race_control = rc,
                driver_info = (case driver_info_body f s of Inl e \<Rightarrow> [] | Inr r \<Rightarrow> r),
                event_info = (case event_info_body s of Inl e \<Rightarrow> Map.empty | Inr m \<Rightarrow> m)\<rparr>"
  using assms
  by (simp add: load_session_data_body load_body_def
      get_telemetry_data_returns get_driver_info_returns get_event_info_returns)

lemma store_with_loads:
  assumes "session_laps s = Inr l"
    and "attr_or_empty (session_weather_data s) = Inr w"
    and "attr_or_empty (session_track_status s) = Inr ts"
    and "attr_or_empty (session_race_control_messages s) = Inr rc"
  shows "load_session_data (store_with s) y g t =
           Inr \<lparr>session = s, timing = laps_frame l,
                telemetry = (case telemetry_body s of Inl e \<Rightarrow> Map.empty | Inr m \<Rightarrow> m),
                weather = w, track_status = ts, race_control = rc,
                driver_info = (case driver_info_body (store_with s) s of Inl e \<Rightarrow> [] | Inr r \<Rightarrow> r),
                event_info = (case event_info_body s of Inl e \<Rightarrow> Map.empty | Inr m \<Rightarrow> m)\<rparr>"
  by (rule load_session_data_returns [OF _ _ assms, of _ _ _ _ "\<lparr>load = Inr s\<rparr>"])
    (simp_all add: store_with_def)

lemma example_loads:
  "load_session_data (store_with example_session) y g t =
     Inr \<lparr>session = example_session, timing = laps_frame example_laps,
          telemetry = (case telemetry_body example_session of Inl e \<Rightarrow> Map.empty | Inr m \<Rightarrow> m),
          weather = [(''AirTemp'', [24])], track_status = [(''Status'', [1])],
          race_control = DataFrame,
          driver_info = (case driver_info_body (store_with example_session) example_session of
                           Inl e \<Rightarrow> [] | Inr r \<Rightarrow> r),
          event_info = (case event_info_body example_session of Inl e \<Rightarrow> Map.empty | Inr m \<Rightarrow> m)\<rparr>"
  by (rule store_with_loads) (simp_all add: example_session_def)

section \<open>Attributes that the session does not expose\<close>

lemma attr_or_empty_exposed_or_not:
  assumes "a = Inl AttributeError \<or> (\<exists>t. a = Inr t)"
  shows "attr_or_empty a = Inr (case a of Inl e \<Rightarrow> DataFrame | Inr t \<Rightarrow> t)"
  using assms by auto

text \<open>
  Claim C8. Take a loaded session: the resolve step and the load step returned, the laps
  can be read, and each of the weather, track-status and race-control attributes is
  either not exposed or exposed with a table. Then the loader returns a bundle, and each of
  the three fields is the empty table when its attribute is not exposed and the attribute's
  table when it is.
\<close>

theorem missing_attribute_empty_table:
  assumes "get_session f y g t = Inr h" and "load h = Inr s" and "session_laps s = Inr l"
    and "session_weather_data s = Inl AttributeError \<or> (\<exists>w. session_weather_data s = Inr w)"
    and "session_track_status s = Inl AttributeError \<or> (\<exists>ts. session_track_status s = Inr ts)"
    and "session_race_control_messages s = Inl AttributeError \<or>
         (\<exists>rc. session_race_control_messages s = Inr rc)"
  shows "\<exists>b. load_session_data f y g t = Inr b \<and>
           weather b = (case session_weather_data s of Inl e \<Rightarrow> DataFrame | Inr w \<Rightarrow> w) \<and>
           track_status b = (case session_track_status s of Inl e \<Rightarrow> DataFrame | Inr ts \<Rightarrow> ts) \<and>
           race_control b =
             (case session_race_control_messages s of Inl e \<Rightarrow> DataFrame | Inr rc \<Rightarrow> rc)"
  using load_session_data_returns [OF assms(1-3)
      attr_or_empty_exposed_or_not [OF assms(4)] attr_or_empty_exposed_or_not [OF assms(5)]
      attr_or_empty_exposed_or_not [OF assms(6)]]
  by simp

theorem missing_attribute_empty_table_witness:
  "session_weather_data example_session = Inr [(''AirTemp'', [24])] \<and>
   session_race_control_messages example_session = Inl AttributeError \<and>
   (\<exists>b. load_session_data (store_with example_session) 2023 ''Monaco'' ''Q'' = Inr b \<and>
        weather b = [(''AirTemp'', [24])] \<and> track_status b = [(''Status'', [1])] \<and>
        race_control b = DataFrame)"
  using missing_attribute_empty_table [of "store_with example_session" 2023 "''Monaco''" "''Q''"
      "\<lparr>load = Inr example_session\<rparr>" example_session example_laps]
  by (simp add: store_with_def) (simp add: example_session_def)

section \<open>Telemetry of one driver\<close>

lemma get_telemetry_data_drivers:
  assumes "drivers s = Inr ds"
  shows "get_telemetry_data s = Inr (telemetry_loop s ds Map.empty)"
  using assms by (simp add: get_telemetry_data_def telemetry_body_def)

lemma get_telemetry_data_apply:
  assumes "drivers s = Inr ds" and "get_telemetry_data s = Inr m"
  shows "m k = (if k \<in> set ds
                then (case driver_telemetry s k of Inr (Some t) \<Rightarrow> Some t | _ \<Rightarrow> None)
                else None)"
  using assms(2) unfolding get_telemetry_data_drivers [OF assms(1)]
  by (auto simp: telemetry_loop_apply)

lemma get_telemetry_data_dom:
  assumes "get_telemetry_data s = Inr m" and "k \<in> dom m"
  shows "\<exists>ds. drivers s = Inr ds \<and> k \<in> set ds"
proof (cases "drivers s")
  case (Inl e)
  with assms show ?thesis
    by (auto simp: get_telemetry_data_def telemetry_body_def)
next
  case (Inr ds)
  from get_telemetry_data_apply [OF Inr assms(1), of k] assms(2) Inr show ?thesis
    by (auto split: if_splits)
qed

lemma driver_telemetry_car_data:
  assumes "session_laps s = Inr l" and "pick_driver l d = Inr dl" and "\<not> empty (frame dl)"
    and "pick_fastest dl = Inr (Some fl)" and "get_car_data fl = Inr cd" and "\<not> empty cd"
  shows "driver_telemetry s d =
           (if ''Distance'' \<notin> set (columns cd)
            then and_then (add_distance cd) (\<lambda>cd'. Inr (Some cd'))
            else Inr (Some cd))"
  using assms by (simp add: driver_telemetry_def)

lemma add_distance_rows:
  assumes "getcol cd ''Time'' = Inr time" and "getcol cd ''Speed'' = Inr speed"
  shows "\<exists>dist. add_distance cd = Inr (cd @ [(''Distance'', dist)]) \<and>
           length dist = min (length time) (length speed) \<and>
           (\<forall>i < length dist. dist ! i = time ! i * speed ! i / 3.6)"
  using assms by (simp add: add_distance_def)

text \<open>
  Claim C6. Take a driver of the driver list whose fastest lap has a car-data table
  that is not empty. When the table has a \<^verbatim>\<open>Distance\<close> column, the table stored under
  the driver's number is that table, unchanged. When it has none, and has the
  \<^verbatim>\<open>Time\<close> and \<^verbatim>\<open>Speed\<close> channels, the stored table is that table with one more
  column, \<^verbatim>\<open>Distance\<close>, whose value in every row is the row's time in seconds
  times the row's speed, divided by 3.6.
\<close>

theorem distance_derivation:
  assumes "drivers s = Inr ds" and "d \<in> set ds"
    and "session_laps s = Inr l" and "pick_driver l d = Inr dl" and "\<not> empty (frame dl)"
    and "pick_fastest dl = Inr (Some fl)" and "get_car_data fl = Inr cd" and "\<not> empty cd"
  shows "\<exists>m. get_telemetry_data s = Inr m \<and>
           (''Distance'' \<in> set (columns cd) \<longrightarrow> m d = Some cd) \<and>
           (''Distance'' \<notin> set (columns cd) \<longrightarrow>
              (\<forall>time speed. getcol cd ''Time'' = Inr time \<and> getcol cd ''Speed'' = Inr speed \<longrightarrow>
                 (\<exists>dist. m d = Some (cd @ [(''Distance'', dist)]) \<and>
                    length dist = min (length time) (length speed) \<and>
                    (\<forall>i < length dist. dist ! i = time ! i * speed ! i / 3.6))))"
proof -
  let ?m = "telemetry_loop s ds Map.empty"
  have m: "get_telemetry_data s = Inr ?m"
    by (rule get_telemetry_data_drivers [OF assms(1)])
  have t: "driver_telemetry s d =
             (if ''Distance'' \<notin> set (columns cd)
              then and_then (add_distance cd) (\<lambda>cd'. Inr (Some cd'))
              else Inr (Some cd))"
    by (rule driver_telemetry_car_data [OF assms(3-8)])
  have 1: "?m d = Some cd" if "''Distance'' \<in> set (columns cd)"
    using that t assms(2) by (simp add: telemetry_loop_apply)
  have 2: "\<exists>dist. ?m d = Some (cd @ [(''Distance'', dist)]) \<and>
             length dist = min (length time) (length speed) \<and>
             (\<forall>i < length dist. dist ! i = time ! i * speed ! i / 3.6)"
    if "''Distance'' \<notin> set (columns cd)" and "getcol cd ''Time'' = Inr time"
      and "getcol cd ''Speed'' = Inr speed" for time speed
  proof -
    from add_distance_rows [OF that(2,3)] obtain dist
      where d: "add_distance cd = Inr (cd @ [(''Distance'', dist)])"
        "length dist = min (length time) (length speed)"
        "\<forall>i < length dist. dist ! i = time ! i * speed ! i / 3.6"
      by blast
    from d(1) that(1) t assms(2) have "?m d = Some (cd @ [(''Distance'', dist)])"
      by (simp add: telemetry_loop_apply)
    with d(2,3) show ?thesis by blast
  qed
  from m 1 2 show ?thesis by blast
qed


lemma example_drivers: "drivers example_session = Inr [''16'', ''44'']"
  by (simp add: example_session_def)

lemma example_session_laps: "session_laps example_session = Inr example_laps"
  by (simp add: example_session_def)

lemma car16_not_empty: "\<not> empty car16"
  by (simp add: empty_def nrows_def car16_def)

lemma laps16_not_empty: "\<not> empty (frame laps16)"
  by (simp add: empty_def nrows_def laps16_def)

lemma example_pick16: "pick_driver example_laps ''16'' = Inr laps16"
  by (simp add: example_laps_def laps16_def lap16_def)

lemma car16_columns:
  "''Distance'' \<notin> set (columns car16)" "getcol car16 ''Time'' = Inr [0, 1, 2]"
  "getcol car16 ''Speed'' = Inr [0, 180, 360]"
  by (simp_all add: columns_def getcol_def car16_def)

theorem distance_derivation_witness:
  "''Distance'' \<notin> set (columns car16) \<and>
   (\<exists>m dist. get_telemetry_data example_session = Inr m \<and>
      m ''16'' = Some (car16 @ [(''Distance'', dist)]) \<and>
      length dist = 3 \<and> dist ! 0 = 0 \<and> dist ! 1 = 50 \<and> dist ! 2 = 200)"
proof -
  have "\<exists>m. get_telemetry_data example_session = Inr m \<and>
          (''Distance'' \<in> set (columns car16) \<longrightarrow> m ''16'' = Some car16) \<and>
          (''Distance'' \<notin> set (columns car16) \<longrightarrow>
             (\<forall>time speed. getcol car16 ''Time'' = Inr time \<and> getcol car16 ''Speed'' = Inr speed \<longrightarrow>
                (\<exists>dist. m ''16'' = Some (car16 @ [(''Distance'', dist)]) \<and>
                   length dist = min (length time) (length speed) \<and>
                   (\<forall>i < length dist. dist ! i = time ! i * speed ! i / 3.6))))"
    by (rule distance_derivation [OF example_drivers _ example_session_laps example_pick16
          laps16_not_empty _ _ car16_not_empty, of lap16])
      (simp_all add: laps16_def lap16_def)
  then obtain m dist where m: "get_telemetry_data example_session = Inr m"
    "m ''16'' = Some (car16 @ [(''Distance'', dist)])"
    "length dist = min (length [0, 1, 2 :: real]) (length [0, 180, 360 :: real])"
    "\<forall>i < length dist. dist ! i = [0, 1, 2] ! i * [0, 180, 360] ! i / 3.6"
    using car16_columns by blast
  from m(3) have l: "length dist = 3" by simp
  have a: "dist ! i = [0, 1, 2] ! i * [0, 180, 360] ! i / 3.6" if "i < 3" for i
    using m(4) l that by simp
  have "dist ! 0 = 0" "dist ! 1 = 50" "dist ! 2 = 200"
    using a [of 0] a [of 1] a [of 2] by simp_all
  with m(1,2) l car16_columns(1) show ?thesis by blast
qed

section \<open>Telemetry keys and the roster\<close>

lemma fallback_record_number:
  assumes "fallback_record f s d = Inr (Some r)"
  shows "number r = d"
  using assms unfolding fallback_record_Some by auto

lemma results_loop_numbers:
  assumes "\<forall>r \<in> set rows. set results_columns \<subseteq> dom r"
    and "results_loop rows [] = Inr ds" and "r \<in> set rows" and "r ''DriverNumber'' = Some v"
  shows "py_str v \<in> number ` set ds"
proof -
  from assms(1) have "\<forall>r \<in> set rows. \<exists>d. results_record r = Inr d"
    by (metis results_record_complete)
  from results_loop_ok [OF this, of "[]"] assms(2)
  have m: "map Inr ds = map results_record rows" by simp
  from assms(1,3) have "set results_columns \<subseteq> dom r" by (rule bspec)
  from results_record_complete [OF this] assms(4) obtain d
    where d: "results_record r = Inr d" "number d = py_str v" by auto
  from assms(3) d(1) have "Inr d \<in> set (map results_record rows)"
    by (metis image_eqI list.set_map)
  with m have "(Inr d :: driver_rec result) \<in> set (map Inr ds)" by simp
  then have "d \<in> set ds" by auto
  with d(2) show ?thesis by (metis image_eqI)
qed

text \<open>
  Claim C1, as amended. In the bundle of every call that returns, every telemetry key is
  a driver number of the driver list of the session. Such a key is the number of a roster
  entry when the results table is exposed, every row of it carries the five columns read,
  and a row has a driver number that prints as the key; and when no results table is
  exposed and the fallback record of that driver number can be built.
\<close>

theorem telemetry_keys_in_roster:
  assumes "load_session_data f y g t = Inr b"
  shows "\<forall>k \<in> dom (telemetry b).
           (\<exists>ds. drivers (session b) = Inr ds \<and> k \<in> set ds) \<and>
           ((\<exists>rows r v. results (session b) = Inr rows \<and>
                (\<forall>r \<in> set rows. set results_columns \<subseteq> dom r) \<and>
                r \<in> set rows \<and> r ''DriverNumber'' = Some v \<and> py_str v = k) \<or>
            (results (session b) = Inl AttributeError \<and>
                (\<exists>r. fallback_record f (session b) k = Inr (Some r)))
            \<longrightarrow> k \<in> number ` set (driver_info b))"
proof (intro ballI conjI impI)
  fix k
  assume k: "k \<in> dom (telemetry b)"
  from assms have tel: "get_telemetry_data (session b) = Inr (telemetry b)"
    and di: "get_driver_info f (session b) = Inr (driver_info b)"
    by (auto simp: load_session_data_eq_Inr)
  from get_telemetry_data_dom [OF tel k]
  show ds: "\<exists>ds. drivers (session b) = Inr ds \<and> k \<in> set ds" .
  assume "(\<exists>rows r v. results (session b) = Inr rows \<and>
                (\<forall>r \<in> set rows. set results_columns \<subseteq> dom r) \<and>
                r \<in> set rows \<and> r ''DriverNumber'' = Some v \<and> py_str v = k) \<or>
            (results (session b) = Inl AttributeError \<and>
                (\<exists>r. fallback_record f (session b) k = Inr (Some r)))"
  then show "k \<in> number ` set (driver_info b)"
  proof (elim disjE exE conjE)
    fix rows r v
    assume a: "results (session b) = Inr rows" "\<forall>r \<in> set rows. set results_columns \<subseteq> dom r"
      "r \<in> set rows" "r ''DriverNumber'' = Some v" "py_str v = k"
    from a(2) have "\<forall>r \<in> set rows. \<exists>d. results_record r = Inr d"
      by (metis results_record_complete)
    from results_loop_ok [OF this, of "[]"] di
    have "results_loop rows [] = Inr (driver_info b)"
      by (auto simp: driver_info_results [OF a(1)])
    from results_loop_numbers [OF a(2) this a(3,4)] a(5) show ?thesis by simp
  next
    fix r
    assume a: "results (session b) = Inl AttributeError"
      "fallback_record f (session b) k = Inr (Some r)"
    from ds obtain ds where ds: "drivers (session b) = Inr ds" "k \<in> set ds" by blast
    from di have "driver_info b = fallback_loop f (session b) ds []"
      by (simp add: driver_info_fallback [OF a(1) ds(1)])
    with a(2) ds(2) have "r \<in> set (driver_info b)"
      by (auto simp: fallback_loop_eq set_map_filter intro!: bexI [of _ k])
    with fallback_record_number [OF a(2)] show ?thesis by (metis image_eqI)
  qed
qed


lemma example_telemetry16:
  assumes "session_laps s = Inr example_laps"
  shows "\<exists>t. driver_telemetry s ''16'' = Inr (Some t)"
  unfolding driver_telemetry_car_data [OF assms example_pick16
      laps16_not_empty _ _ car16_not_empty, of lap16, unfolded laps16_def lap16_def, simplified]
  by (simp add: car16_columns add_distance_def)

lemma example_key16:
  assumes "session_laps s = Inr example_laps" and "drivers s = Inr [''16'', ''44'']"
  shows "''16'' \<in> dom (case telemetry_body s of Inl e \<Rightarrow> Map.empty | Inr m \<Rightarrow> m)"
  using example_telemetry16 [OF assms(1)] assms(2)
  by (auto simp: telemetry_body_def telemetry_loop_apply simp del: telemetry_loop.simps)

lemma empty_results_loads:
  "load_session_data (store_with empty_results_session) y g t =
     Inr \<lparr>session = empty_results_session, timing = laps_frame example_laps,
          telemetry = (case telemetry_body empty_results_session of
                         Inl e \<Rightarrow> Map.empty | Inr m \<Rightarrow> m),
          weather = [(''AirTemp'', [24])], track_status = [(''Status'', [1])],
          race_control = DataFrame,
          driver_info = (case driver_info_body (store_with empty_results_session)
                                empty_results_session of Inl e \<Rightarrow> [] | Inr r \<Rightarrow> r),
          event_info = (case event_info_body empty_results_session of
                          Inl e \<Rightarrow> Map.empty | Inr m \<Rightarrow> m)\<rparr>"
  by (rule store_with_loads) (simp_all add: empty_results_session_def example_session_def)

theorem telemetry_keys_in_roster_witness:
  "load_session_data (store_with example_session) 2023 ''Monaco'' ''Q'' =
     Inr (projr (load_session_data (store_with example_session) 2023 ''Monaco'' ''Q'')) \<and>
   ''16'' \<in> dom (telemetry (projr (load_session_data (store_with example_session) 2023 ''Monaco'' ''Q''))) \<and>
   ''16'' \<in> number ` set (driver_info
      (projr (load_session_data (store_with example_session) 2023 ''Monaco'' ''Q'')))"
proof -
  let ?b = "projr (load_session_data (store_with example_session) 2023 ''Monaco'' ''Q'')"
  have 1: "load_session_data (store_with example_session) 2023 ''Monaco'' ''Q'' = Inr ?b"
    by (simp add: example_loads)
  have s: "session ?b = example_session"
    by (simp add: example_loads)
  have k: "''16'' \<in> dom (telemetry ?b)"
    using example_key16 [OF example_session_laps example_drivers] by (simp add: example_loads)
  have "row16 ''DriverNumber'' = Some (VStr ''16'')"
    by (simp add: row16_def)
  then have "results (session ?b) = Inr [row16, row44] \<and>
      (\<forall>r \<in> set [row16, row44]. set results_columns \<subseteq> dom r) \<and>
      row16 \<in> set [row16, row44] \<and> row16 ''DriverNumber'' = Some (VStr ''16'') \<and>
      py_str (VStr ''16'') = ''16''"
    using row16_complete row44_complete example_results by (simp add: s)
  then have "(\<exists>rows r v. results (session ?b) = Inr rows \<and>
        (\<forall>r \<in> set rows. set results_columns \<subseteq> dom r) \<and>
        r \<in> set rows \<and> r ''DriverNumber'' = Some v \<and> py_str v = ''16'') \<or>
      (results (session ?b) = Inl AttributeError \<and>
        (\<exists>r. fallback_record (store_with example_session) (session ?b) ''16'' = Inr (Some r)))"
    by (intro disjI1 exI)
  with telemetry_keys_in_roster [OF 1, THEN bspec, OF k, THEN conjunct2]
  have "''16'' \<in> number ` set (driver_info ?b)" by (rule mp)
  with 1 k show ?thesis by (intro conjI)
qed

text \<open>
  The claim as it stands fails when the results table is exposed and has no row: the
  call returns, the telemetry has the key of driver 16, and the roster is empty.
\<close>

theorem orphan_telemetry_counterexample:
  "load_session_data (store_with empty_results_session) 2023 ''Monaco'' ''Q'' =
     Inr (projr (load_session_data (store_with empty_results_session) 2023 ''Monaco'' ''Q'')) \<and>
   ''16'' \<in> dom (telemetry
      (projr (load_session_data (store_with empty_results_session) 2023 ''Monaco'' ''Q''))) \<and>
   driver_info (projr (load_session_data (store_with empty_results_session) 2023 ''Monaco'' ''Q'')) = []"
proof -
  have l: "session_laps empty_results_session = Inr example_laps"
    and d: "drivers empty_results_session = Inr [''16'', ''44'']"
    and r: "results empty_results_session = Inr []"
    by (simp_all add: empty_results_session_def example_session_def)
  from r have "driver_info_body (store_with empty_results_session) empty_results_session = Inr []"
    by (simp add: driver_info_body_def)
  with example_key16 [OF l d] show ?thesis
    by (simp add: empty_results_loads)
qed

section \<open>The sub-steps of the event information\<close>

lemma session_step_add:
  "session_step s m =
     (case session_step s Map.empty of Inl e \<Rightarrow> Inl e | Inr e3 \<Rightarrow> Inr (m ++ e3))"
  by (cases "date s"; cases "name s"; cases "hasattr (weekend_session_type s)";
      cases "weekend_session_type s")
    (simp_all add: session_step_def)

lemma event_info_body_steps:
  "event_info_body s =
     (case event_step s Map.empty of
        Inl e \<Rightarrow> Inl e
      | Inr e1 \<Rightarrow>
          (case session_step s Map.empty of
             Inl e \<Rightarrow> Inl e
           | Inr e3 \<Rightarrow>
               Inr (filter_none
                 ((case circuit_step s of
                     Inr (Some circuit_length) \<Rightarrow> e1(''CircuitLength'' \<mapsto> circuit_length)
                   | _ \<Rightarrow> e1) ++ e3))))"
  unfolding event_info_body_def
  by (subst session_step_add) (simp split: sum.splits)

lemma event_step_no_length:
  assumes "event_step s Map.empty = Inr e1"
  shows "e1 ''CircuitLength'' = None"
  using assms
  by (auto simp: event_step_def and_then_eq_Inr split: if_splits)

lemma session_step_no_length:
  assumes "session_step s Map.empty = Inr e3"
  shows "e3 ''CircuitLength'' = None"
  using assms
  by (auto simp: session_step_def and_then_eq_Inr split: if_splits)


text \<open>
  Claim C3, as amended. The extraction of the event information always returns a mapping.
  When the circuit sub-step gives no length (it raises, or there is no circuit
  information, or it has no corners), only the key \<^verbatim>\<open>CircuitLength\<close> is missing:
  the mapping holds every value of the event record and of the session's date and names
  that is not \<open>None\<close>. When the sub-step of the event record or that of the session's
  date and names raises, the mapping is empty, so that the keys of the other sub-steps are
  missing as well.
\<close>

theorem event_info_substeps:
  "(\<exists>m. get_event_info s = Inr m) \<and>
   ((\<exists>e. event_step s Map.empty = Inl e) \<or> (\<exists>e. session_step s Map.empty = Inl e) \<longrightarrow>
      get_event_info s = Inr Map.empty) \<and>
   (\<forall>e1 e3. event_step s Map.empty = Inr e1 \<and> session_step s Map.empty = Inr e3 \<longrightarrow>
      ((\<forall>c. circuit_step s \<noteq> Inr (Some c)) \<longrightarrow>
         get_event_info s = Inr (filter_none (e1 ++ e3)) \<and>
         (e1 ++ e3) ''CircuitLength'' = None) \<and>
      (\<forall>c. circuit_step s = Inr (Some c) \<longrightarrow>
         get_event_info s = Inr (filter_none (e1(''CircuitLength'' \<mapsto> c) ++ e3))))"
proof (intro conjI allI impI)
  show "\<exists>m. get_event_info s = Inr m"
    using get_event_info_returns by blast
next
  assume "(\<exists>e. event_step s Map.empty = Inl e) \<or> (\<exists>e. session_step s Map.empty = Inl e)"
  then show "get_event_info s = Inr Map.empty"
    by (auto simp: get_event_info_returns event_info_body_steps split: sum.splits)
next
  fix e1 e3
  assume a: "event_step s Map.empty = Inr e1 \<and> session_step s Map.empty = Inr e3"
    and c: "\<forall>c. circuit_step s \<noteq> Inr (Some c)"
  from a c show "get_event_info s = Inr (filter_none (e1 ++ e3))"
    by (cases "circuit_step s")
      (auto simp: get_event_info_returns event_info_body_steps split: option.splits)
  from a have "e1 ''CircuitLength'' = None" and "e3 ''CircuitLength'' = None"
    by (auto intro: event_step_no_length session_step_no_length)
  then show "(e1 ++ e3) ''CircuitLength'' = None"
    by (simp add: map_add_def)
next
  fix e1 e3 c
  assume "event_step s Map.empty = Inr e1 \<and> session_step s Map.empty = Inr e3"
    and "circuit_step s = Inr (Some c)"
  then show "get_event_info s = Inr (filter_none (e1(''CircuitLength'' \<mapsto> c) ++ e3))"
    by (simp add: get_event_info_returns event_info_body_steps)
qed

lemma no_circuit_steps:
  "circuit_step no_circuit_session = Inl (OtherError ''no circuit data'')"
  "event_step no_circuit_session Map.empty =
     Inr [''Name'' \<mapsto> EvCell (VStr ''Monaco Grand Prix''), ''Country'' \<mapsto> EvCell (VStr ''Monaco''),
          ''Location'' \<mapsto> EvCell (VStr ''Monte Carlo''),
          ''OfficialName'' \<mapsto> EvCell (VStr ''GP de Monaco''),
          ''F1ApiSupport'' \<mapsto> EvCell (VBool True)]"
  "session_step no_circuit_session Map.empty =
     Inr [''Date'' \<mapsto> EvCell (VObj ''2023-05-27''), ''SessionType'' \<mapsto> EvCell (VStr ''Qualifying''),
          ''WeekendSessionType'' \<mapsto> EvCell VNone]"
  by (simp_all add: circuit_step_def event_step_def session_step_def no_circuit_session_def
      example_session_def monaco_def getitem_def)

theorem event_info_substeps_witness:
  "circuit_step no_circuit_session = Inl (OtherError ''no circuit data'') \<and>
   (\<exists>m. get_event_info no_circuit_session = Inr m \<and> m ''CircuitLength'' = None \<and>
        m ''Name'' = Some (EvCell (VStr ''Monaco Grand Prix'')) \<and>
        m ''SessionType'' = Some (EvCell (VStr ''Qualifying'')) \<and>
        m ''WeekendSessionType'' = None)"
proof -
  have c: "\<forall>c. circuit_step no_circuit_session \<noteq> Inr (Some c)"
    by (simp add: no_circuit_steps)
  from event_info_substeps [of no_circuit_session, THEN conjunct2, THEN conjunct2,
      THEN spec, THEN spec, THEN mp, OF conjI, OF no_circuit_steps(2,3),
      THEN conjunct1, THEN mp, OF c]
  show ?thesis
    by (simp add: no_circuit_steps(1) filter_none_def map_add_def)
qed

text \<open>
  The claim as it stands fails when a field of the event record is missing: the date and
  the name of the session can be read, and the mapping has no key at all.
\<close>

theorem event_field_failure_counterexample:
  "date partial_event_session = Inr (VObj ''2023-05-27'') \<and>
   name partial_event_session = Inr (VStr ''Qualifying'') \<and>
   get_event_info partial_event_session = Inr Map.empty"
proof -
  have "event_step partial_event_session Map.empty = Inl KeyError"
    by (simp add: event_step_def partial_event_session_def getitem_def)
  then show ?thesis
    by (simp add: get_event_info_returns event_info_body_steps)
      (simp add: partial_event_session_def example_session_def)
qed

section \<open>What the filter of the event information drops\<close>




lemma col_max_not_none: "col_max c \<noteq> EvCell VNone"
  by (simp add: col_max_def split: list.splits)









section \<open>One failing driver\<close>

lemma getcol_columns: "(\<exists>c. getcol t k = Inr c) \<longleftrightarrow> k \<in> set (columns t)"
proof -
  have "k \<in> set (columns t) \<longleftrightarrow> map_of t k \<noteq> None"
    by (simp add: columns_def map_of_eq_None_iff)
  moreover have "(\<exists>c. getcol t k = Inr c) \<longleftrightarrow> map_of t k \<noteq> None"
    by (cases "map_of t k") (simp_all add: getcol_def)
  ultimately show ?thesis by simp
qed

lemma add_distance_columns:
  "(\<exists>t. add_distance cd = Inr t) \<longleftrightarrow> ''Time'' \<in> set (columns cd) \<and> ''Speed'' \<in> set (columns cd)"
proof -
  have "(\<exists>t. add_distance cd = Inr t) \<longleftrightarrow>
          (\<exists>c. getcol cd ''Time'' = Inr c) \<and> (\<exists>c. getcol cd ''Speed'' = Inr c)"
    by (cases "getcol cd ''Time''"; cases "getcol cd ''Speed''") (simp_all add: add_distance_def)
  then show ?thesis
    by (simp only: getcol_columns)
qed

lemma driver_telemetry_fetch_raises:
  assumes "session_laps s = Inr l"
    and "pick_driver l d = Inl e \<or>
         (\<exists>dl. pick_driver l d = Inr dl \<and> \<not> empty (frame dl) \<and>
            (pick_fastest dl = Inl e \<or>
             (\<exists>fl. pick_fastest dl = Inr (Some fl) \<and> get_car_data fl = Inl e)))"
  shows "driver_telemetry s d = Inl e"
  using assms by (auto simp: driver_telemetry_def)

lemma driver_telemetry_derivable:
  assumes "session_laps s = Inr l" and "pick_driver l d = Inr dl" and "\<not> empty (frame dl)"
    and "pick_fastest dl = Inr (Some fl)" and "get_car_data fl = Inr cd" and "\<not> empty cd"
    and "''Distance'' \<in> set (columns cd) \<or>
         ''Time'' \<in> set (columns cd) \<and> ''Speed'' \<in> set (columns cd)"
  shows "\<exists>t. driver_telemetry s d = Inr (Some t)"
proof (cases "''Distance'' \<in> set (columns cd)")
  case True
  then show ?thesis
    by (simp add: driver_telemetry_car_data [OF assms(1-6)])
next
  case False
  with assms(7) have "\<exists>t. add_distance cd = Inr t"
    by (simp only: add_distance_columns) simp
  then obtain t where "add_distance cd = Inr t" ..
  with False show ?thesis
    by (simp add: driver_telemetry_car_data [OF assms(1-6)])
qed

lemma driver_telemetry_not_derivable:
  assumes "session_laps s = Inr l" and "pick_driver l d = Inr dl" and "\<not> empty (frame dl)"
    and "pick_fastest dl = Inr (Some fl)" and "get_car_data fl = Inr cd" and "\<not> empty cd"
    and "''Distance'' \<notin> set (columns cd)"
    and "''Time'' \<notin> set (columns cd) \<or> ''Speed'' \<notin> set (columns cd)"
  shows "\<exists>e. driver_telemetry s d = Inl e"
proof -
  from assms(8) have "\<not> (\<exists>t. add_distance cd = Inr t)"
    by (simp only: add_distance_columns) simp
  then obtain e where "add_distance cd = Inl e"
    by (cases "add_distance cd") auto
  with assms(7) show ?thesis
    by (simp add: driver_telemetry_car_data [OF assms(1-6)])
qed

text \<open>
  Claim C4, as amended. Take a loaded session (the resolve step and the load step returned,
  the laps can be read, each of the three optional attributes is exposed or not exposed)
  and a driver of the driver list whose lap selection, fastest-lap selection or car-data
  retrieval raises. Then the loader returns a bundle and the failing driver has no
  telemetry entry. Every driver of the list whose fastest lap has a car-data table that is
  not empty has an entry when the table has a \<^verbatim>\<open>Distance\<close> column or both a
  \<^verbatim>\<open>Time\<close> and a \<^verbatim>\<open>Speed\<close> column, and has none when the table lacks
  \<^verbatim>\<open>Distance\<close> and lacks \<^verbatim>\<open>Time\<close> or \<^verbatim>\<open>Speed\<close>. The telemetry keys are
  drivers of the list other than the failing one.
\<close>

theorem one_driver_failure_contained:
  assumes "get_session f y g t = Inr h" and "load h = Inr s" and "session_laps s = Inr l"
    and "session_weather_data s = Inl AttributeError \<or> (\<exists>w. session_weather_data s = Inr w)"
    and "session_track_status s = Inl AttributeError \<or> (\<exists>ts. session_track_status s = Inr ts)"
    and "session_race_control_messages s = Inl AttributeError \<or>
         (\<exists>rc. session_race_control_messages s = Inr rc)"
    and "drivers s = Inr ds" and "d \<in> set ds"
    and "pick_driver l d = Inl e \<or>
         (\<exists>dl. pick_driver l d = Inr dl \<and> \<not> empty (frame dl) \<and>
            (pick_fastest dl = Inl e \<or>
             (\<exists>fl. pick_fastest dl = Inr (Some fl) \<and> get_car_data fl = Inl e)))"
  shows "\<exists>b. load_session_data f y g t = Inr b \<and> d \<notin> dom (telemetry b) \<and>
           (\<forall>d' \<in> set ds. \<forall>dl fl cd.
              pick_driver l d' = Inr dl \<and> \<not> empty (frame dl) \<and>
              pick_fastest dl = Inr (Some fl) \<and> get_car_data fl = Inr cd \<and> \<not> empty cd \<longrightarrow>
              (''Distance'' \<in> set (columns cd) \<or>
               ''Time'' \<in> set (columns cd) \<and> ''Speed'' \<in> set (columns cd) \<longrightarrow>
                 d' \<in> dom (telemetry b)) \<and>
              (''Distance'' \<notin> set (columns cd) \<and>
               (''Time'' \<notin> set (columns cd) \<or> ''Speed'' \<notin> set (columns cd)) \<longrightarrow>
                 d' \<notin> dom (telemetry b))) \<and>
           dom (telemetry b) \<subseteq> set ds - {d}"
proof -
  let ?m = "telemetry_loop s ds Map.empty"
  from load_session_data_returns [OF assms(1-3)
      attr_or_empty_exposed_or_not [OF assms(4)] attr_or_empty_exposed_or_not [OF assms(5)]
      attr_or_empty_exposed_or_not [OF assms(6)]]
  obtain b where b: "load_session_data f y g t = Inr b"
    and "telemetry b = (case telemetry_body s of Inl e \<Rightarrow> Map.empty | Inr m \<Rightarrow> m)"
    by simp
  with assms(7) have tb: "telemetry b = ?m"
    by (simp add: telemetry_body_def)
  have 1: "d \<notin> dom ?m"
    using driver_telemetry_fetch_raises [OF assms(3,9)]
    by (simp add: telemetry_loop_apply domIff)
  have 2: "d' \<in> dom ?m"
    if "d' \<in> set ds" and "pick_driver l d' = Inr dl \<and> \<not> empty (frame dl) \<and>
        pick_fastest dl = Inr (Some fl) \<and> get_car_data fl = Inr cd \<and> \<not> empty cd"
      and "''Distance'' \<in> set (columns cd) \<or>
           ''Time'' \<in> set (columns cd) \<and> ''Speed'' \<in> set (columns cd)"
    for d' dl fl cd
  proof -
    from that(2) have r: "pick_driver l d' = Inr dl" "\<not> empty (frame dl)"
      "pick_fastest dl = Inr (Some fl)" "get_car_data fl = Inr cd" "\<not> empty cd"
      by simp_all
    from driver_telemetry_derivable [OF assms(3) r that(3)] that(1) show ?thesis
      by (auto simp: telemetry_loop_apply)
  qed
  have 3: "d' \<notin> dom ?m"
    if "pick_driver l d' = Inr dl \<and> \<not> empty (frame dl) \<and>
        pick_fastest dl = Inr (Some fl) \<and> get_car_data fl = Inr cd \<and> \<not> empty cd"
      and "''Distance'' \<notin> set (columns cd) \<and>
           (''Time'' \<notin> set (columns cd) \<or> ''Speed'' \<notin> set (columns cd))"
    for d' dl fl cd
  proof -
    from that(1) have r: "pick_driver l d' = Inr dl" "\<not> empty (frame dl)"
      "pick_fastest dl = Inr (Some fl)" "get_car_data fl = Inr cd" "\<not> empty cd"
      by simp_all
    from that(2) have c: "''Distance'' \<notin> set (columns cd)"
      "''Time'' \<notin> set (columns cd) \<or> ''Speed'' \<notin> set (columns cd)"
      by simp_all
    from driver_telemetry_not_derivable [OF assms(3) r c] show ?thesis
      by (auto simp: telemetry_loop_apply domIff)
  qed
  have 4: "dom ?m \<subseteq> set ds - {d}"
    using 1 by (auto simp: telemetry_loop_apply split: if_splits)
  have "d \<notin> dom (telemetry b) \<and>
        (\<forall>d' \<in> set ds. \<forall>dl fl cd.
              pick_driver l d' = Inr dl \<and> \<not> empty (frame dl) \<and>
              pick_fastest dl = Inr (Some fl) \<and> get_car_data fl = Inr cd \<and> \<not> empty cd \<longrightarrow>
              (''Distance'' \<in> set (columns cd) \<or>
               ''Time'' \<in> set (columns cd) \<and> ''Speed'' \<in> set (columns cd) \<longrightarrow>
                 d' \<in> dom (telemetry b)) \<and>
              (''Distance'' \<notin> set (columns cd) \<and>
               (''Time'' \<notin> set (columns cd) \<or> ''Speed'' \<notin> set (columns cd)) \<longrightarrow>
                 d' \<notin> dom (telemetry b))) \<and>
        dom (telemetry b) \<subseteq> set ds - {d}"
    unfolding tb
  proof (intro conjI ballI allI impI)
    show "d \<notin> dom ?m" by (rule 1)
    show "dom ?m \<subseteq> set ds - {d}" by (rule 4)
  qed (erule (2) 2, erule (1) 3)
  from conjI [OF b this] show ?thesis by (rule exI)
qed


lemma failing_session_facts:
  "get_session (store_with one_failing_session) 2023 ''Monaco'' ''Q'' = Inr \<lparr>load = Inr one_failing_session\<rparr>"
  "session_laps one_failing_session = Inr failing_laps"
  "session_weather_data one_failing_session = Inr [(''AirTemp'', [24])]"
  "session_track_status one_failing_session = Inr [(''Status'', [1])]"
  "session_race_control_messages one_failing_session = Inl AttributeError"
  "drivers one_failing_session = Inr [''16'', ''44'']"
  by (simp_all add: store_with_def one_failing_session_def example_session_def)

lemma failing_pick:
  "pick_driver failing_laps ''44'' = Inl (OtherError ''no lap data'')"
  "pick_driver failing_laps ''16'' = Inr laps16"
  by (simp_all add: failing_laps_def example_laps_def laps16_def lap16_def)

lemma car16_has_channels:
  "''Time'' \<in> set (columns car16)" "''Speed'' \<in> set (columns car16)"
  by (simp_all add: columns_def car16_def)

theorem one_driver_failure_contained_witness:
  "pick_driver failing_laps ''44'' = Inl (OtherError ''no lap data'') \<and>
   (\<exists>b. load_session_data (store_with one_failing_session) 2023 ''Monaco'' ''Q'' = Inr b \<and>
        ''44'' \<notin> dom (telemetry b) \<and> ''16'' \<in> dom (telemetry b))"
proof -
  let ?ds = "[''16'', ''44'']"
  let ?e = "OtherError ''no lap data''"
  have ld: "load \<lparr>load = Inr one_failing_session\<rparr> = Inr one_failing_session"
    by simp
  have w: "session_weather_data one_failing_session = Inl AttributeError \<or>
           (\<exists>w. session_weather_data one_failing_session = Inr w)"
    and ts: "session_track_status one_failing_session = Inl AttributeError \<or>
           (\<exists>ts. session_track_status one_failing_session = Inr ts)"
    and rc: "session_race_control_messages one_failing_session = Inl AttributeError \<or>
           (\<exists>rc. session_race_control_messages one_failing_session = Inr rc)"
    by (simp_all add: failing_session_facts)
  have m44: "''44'' \<in> set ?ds" and m16: "''16'' \<in> set ?ds"
    by simp_all
  have fails: "pick_driver failing_laps ''44'' = Inl ?e \<or>
      (\<exists>dl. pick_driver failing_laps ''44'' = Inr dl \<and> \<not> empty (frame dl) \<and>
         (pick_fastest dl = Inl ?e \<or>
          (\<exists>fl. pick_fastest dl = Inr (Some fl) \<and> get_car_data fl = Inl ?e)))"
    by (rule disjI1) (rule failing_pick(1))
  from one_driver_failure_contained [OF failing_session_facts(1) ld failing_session_facts(2)
      w ts rc failing_session_facts(6) m44 fails]
  obtain b where b: "load_session_data (store_with one_failing_session) 2023 ''Monaco'' ''Q'' = Inr b \<and>
      ''44'' \<notin> dom (telemetry b) \<and>
      (\<forall>d' \<in> set ?ds. \<forall>dl fl cd.
         pick_driver failing_laps d' = Inr dl \<and> \<not> empty (frame dl) \<and>
         pick_fastest dl = Inr (Some fl) \<and> get_car_data fl = Inr cd \<and> \<not> empty cd \<longrightarrow>
         (''Distance'' \<in> set (columns cd) \<or>
          ''Time'' \<in> set (columns cd) \<and> ''Speed'' \<in> set (columns cd) \<longrightarrow>
            d' \<in> dom (telemetry b)) \<and>
         (''Distance'' \<notin> set (columns cd) \<and>
          (''Time'' \<notin> set (columns cd) \<or> ''Speed'' \<notin> set (columns cd)) \<longrightarrow>
            d' \<notin> dom (telemetry b))) \<and>
      dom (telemetry b) \<subseteq> set ?ds - {''44''}" ..
  note b1 = b [THEN conjunct1] and b2 = b [THEN conjunct2, THEN conjunct1]
    and b3 = b [THEN conjunct2, THEN conjunct2, THEN conjunct1]
  have car: "pick_driver failing_laps ''16'' = Inr laps16 \<and> \<not> empty (frame laps16) \<and>
      pick_fastest laps16 = Inr (Some lap16) \<and> get_car_data lap16 = Inr car16 \<and> \<not> empty car16"
    using failing_pick(2) laps16_not_empty car16_not_empty by (simp add: laps16_def lap16_def)
  have ch: "''Distance'' \<in> set (columns car16) \<or>
      ''Time'' \<in> set (columns car16) \<and> ''Speed'' \<in> set (columns car16)"
    using car16_has_channels by (intro disjI2 conjI)
  from b3 [THEN bspec, OF m16, THEN spec, THEN spec, THEN spec, THEN mp, OF car,
      THEN conjunct1, THEN mp, OF ch]
  have "''16'' \<in> dom (telemetry b)" .
  with b1 b2 have "load_session_data (store_with one_failing_session) 2023 ''Monaco'' ''Q'' = Inr b \<and>
      ''44'' \<notin> dom (telemetry b) \<and> ''16'' \<in> dom (telemetry b)"
    by (intro conjI)
  then have "\<exists>b. load_session_data (store_with one_failing_session) 2023 ''Monaco'' ''Q'' = Inr b \<and>
      ''44'' \<notin> dom (telemetry b) \<and> ''16'' \<in> dom (telemetry b)" ..
  with failing_pick(1) show ?thesis by (intro conjI)
qed

lemma no_speed_facts:
  "session_laps no_speed_session = Inr no_speed_laps"
  "drivers no_speed_session = Inr [''16'', ''44'']"
  "pick_driver no_speed_laps ''44'' = Inl (OtherError ''no lap data'')"
  "pick_driver no_speed_laps ''16'' = Inr laps16_no_speed"
  "\<not> empty (frame laps16_no_speed)"
  "pick_fastest laps16_no_speed = Inr (Some lap16_no_speed)"
  "get_car_data lap16_no_speed = Inr car_no_speed"
  "\<not> empty car_no_speed"
  "''Distance'' \<notin> set (columns car_no_speed)"
  "''Speed'' \<notin> set (columns car_no_speed)"
  by (simp_all add: no_speed_session_def example_session_def no_speed_laps_def
      laps16_no_speed_def lap16_no_speed_def car_no_speed_def empty_def nrows_def columns_def)

lemma no_speed_loads:
  "load_session_data (store_with no_speed_session) y g t =
     Inr \<lparr>session = no_speed_session, timing = laps_frame no_speed_laps,
          telemetry = (case telemetry_body no_speed_session of
                         Inl e \<Rightarrow> Map.empty | Inr m \<Rightarrow> m),
          weather = [(''AirTemp'', [24])], track_status = [(''Status'', [1])],
          race_control = DataFrame,
          driver_info = (case driver_info_body (store_with no_speed_session)
                                no_speed_session of Inl e \<Rightarrow> [] | Inr r \<Rightarrow> r),
          event_info = (case event_info_body no_speed_session of
                          Inl e \<Rightarrow> Map.empty | Inr m \<Rightarrow> m)\<rparr>"
  by (rule store_with_loads) (simp_all add: no_speed_session_def example_session_def)

text \<open>
  The claim as it stands fails when the car data of another driver cannot take the
  derived channel: the lap selection of driver 44 raises, the lap selection and the
  car-data retrieval of driver 16 return a table that is not empty and has no
  \<^verbatim>\<open>Speed\<close> column, the call returns, and driver 16 has no telemetry entry.
\<close>

theorem missing_channel_counterexample:
  "pick_driver no_speed_laps ''44'' = Inl (OtherError ''no lap data'') \<and>
   pick_driver no_speed_laps ''16'' = Inr laps16_no_speed \<and>
   \<not> empty (frame laps16_no_speed) \<and>
   pick_fastest laps16_no_speed = Inr (Some lap16_no_speed) \<and>
   get_car_data lap16_no_speed = Inr car_no_speed \<and>
   \<not> empty car_no_speed \<and>
   load_session_data (store_with no_speed_session) 2023 ''Monaco'' ''Q'' =
     Inr (projr (load_session_data (store_with no_speed_session) 2023 ''Monaco'' ''Q'')) \<and>
   ''16'' \<notin> dom (telemetry
      (projr (load_session_data (store_with no_speed_session) 2023 ''Monaco'' ''Q'')))"
proof -
  from driver_telemetry_not_derivable [OF no_speed_facts(1,4,5,6,7,8,9) disjI2,
      OF no_speed_facts(10)]
  obtain e where "driver_telemetry no_speed_session ''16'' = Inl e" ..
  then have "telemetry_loop no_speed_session [''16'', ''44''] Map.empty ''16'' = None"
    by (simp add: telemetry_loop_apply del: telemetry_loop.simps)
  then have "''16'' \<notin> dom (case telemetry_body no_speed_session of
                             Inl e \<Rightarrow> Map.empty | Inr m \<Rightarrow> m)"
    by (simp add: telemetry_body_def no_speed_facts(2) domIff del: telemetry_loop.simps)
  then show ?thesis
    by (simp add: no_speed_loads no_speed_facts)
qed

end
